theory Spec2Isabelle
  imports Complex_Main
begin

section \<open>Data model (types.ts)\<close>

text \<open>
  A JavaScript \<open>number\<close> is modelled as a real: the values this development looks at are
  the constants of the source and coordinates that are only compared and copied. \<open>NaN\<close>
  and the infinities have no counterpart. An optional field \<open>f?: T\<close> is a \<open>T option\<close>
  with \<open>None\<close> for \<open>undefined\<close>. Strings are byte strings (UTF-8).
\<close>

type_synonym number = real

text \<open>\<open>NodeData\<close>: fields \<open>id\<close>, \<open>label\<close>, \<open>group?\<close>, \<open>val?\<close>.\<close>

record NodeData =
  node_id :: string
  label :: string
  node_group :: "number option"
  val :: "number option"

text \<open>\<open>LinkData\<close>: both ends are node ids.\<close>

record LinkData =
  source :: string
  target :: string

record GraphData =
  nodes :: "NodeData list"
  links :: "LinkData list"

text \<open>
  \<open>InfographicItem\<close>. The declared type of \<open>icon\<close> is a union of eight string
  literals; the value comes from parsed JSON, so it is a string here.
\<close>

record InfographicItem =
  title :: string
  description :: string
  icon :: string


section \<open>MindMapGraph: props, colours and radii\<close>

text \<open>
  Props of \<open>MindMapGraph\<close>. \<open>data_ref\<close> is the identity of the object passed as
  \<open>data\<close>: React compares effect dependencies with \<open>Object.is\<close>, that is by reference
  for objects. The optional props carry their defaults in the destructuring pattern
  of the component (\<open>width = 800\<close>, \<open>height = 500\<close>, \<open>isDarkMode = false\<close>,
  \<open>showLabels = true\<close>).
\<close>

record MindMapGraphProps =
  data_ref :: nat
  data :: GraphData
  width_prop :: "number option"
  height_prop :: "number option"
  isDarkMode_prop :: "bool option"
  showLabels_prop :: "bool option"

definition width :: "MindMapGraphProps \<Rightarrow> number" where
  "width p = (case width_prop p of None \<Rightarrow> 800 | Some w \<Rightarrow> w)"

definition height :: "MindMapGraphProps \<Rightarrow> number" where
  "height p = (case height_prop p of None \<Rightarrow> 500 | Some h \<Rightarrow> h)"

definition isDarkMode :: "MindMapGraphProps \<Rightarrow> bool" where
  "isDarkMode p = (case isDarkMode_prop p of None \<Rightarrow> False | Some b \<Rightarrow> b)"

definition showLabels :: "MindMapGraphProps \<Rightarrow> bool" where
  "showLabels p = (case showLabels_prop p of None \<Rightarrow> True | Some b \<Rightarrow> b)"

text \<open>
  \<open>getColor\<close> and \<open>getRadius\<close> close over \<open>isDarkMode\<close>; their parameter has the
  default \<open>group = 2\<close>, which JavaScript applies when the argument is \<open>undefined\<close>.
\<close>

definition getColor :: "bool \<Rightarrow> number option \<Rightarrow> string" where
  "getColor dark g =
     (let group = (case g of None \<Rightarrow> 2 | Some v \<Rightarrow> v) in
      if group = 1 then (if dark then ''#818cf8'' else ''#6366f1'')
      else if group = 2 then (if dark then ''#f472b6'' else ''#ec4899'')
      else (if dark then ''#60a5fa'' else ''#3b82f6''))"

definition getRadius :: "number option \<Rightarrow> number" where
  "getRadius g =
     (let group = (case g of None \<Rightarrow> 2 | Some v \<Rightarrow> v) in
      if group = 1 then 50 else if group = 2 then 35 else 25)"

definition textColor :: "bool \<Rightarrow> string" where
  "textColor dark = (if dark then ''#e2e8f0'' else ''#1e293b'')"

definition linkColor :: "bool \<Rightarrow> string" where
  "linkColor dark = (if dark then ''rgba(255,255,255,0.3)'' else ''rgba(0,0,0,0.2)'')"


section \<open>Simulation objects\<close>

text \<open>
  \<open>SimulationNode\<close> extends the node data by the fields the engine owns
  (\<open>d3.SimulationNodeDatum\<close>: \<open>index\<close>, \<open>x\<close>, \<open>y\<close>, \<open>vx\<close>, \<open>vy\<close>).
\<close>

record SimulationNode = NodeData +
  node_index :: "nat option"
  node_x :: "number option"
  node_y :: "number option"
  node_vx :: "number option"
  node_vy :: "number option"

text \<open>
  An end of a \<open>SimulationLink\<close> is \<open>string | SimulationNode\<close>. The node objects of a
  simulation live in one array, and a resolved end is a reference to one of them: it is
  modelled as the position of the object in that array, so that a link sees the
  coordinates the engine writes into the node.
\<close>

datatype endpoint = Id string | NodeRef nat

record SimulationLink =
  link_source :: endpoint
  link_target :: endpoint

text \<open>
  The four forces the effect installs: \<open>forceLink(..).distance(120)\<close>,
  \<open>forceManyBody().strength(-400)\<close>, \<open>forceCenter(width / 2, height / 2)\<close> and
  \<open>forceCollide(60)\<close>. The argument of \<open>forceCollide\<close> is the collision radius; a number
  stands for the constant function of the node.
\<close>

record forces =
  link_distance :: number
  charge_strength :: number
  center :: "number \<times> number"
  collide_radius :: "SimulationNode \<Rightarrow> number"

definition simulation_forces :: "MindMapGraphProps \<Rightarrow> forces" where
  "simulation_forces p =
     \<lparr> link_distance = 120,
       charge_strength = - 400,
       center = (width p / 2, height p / 2),
       collide_radius = (\<lambda>n. 60) \<rparr>"


section \<open>The effect of MindMapGraph: setting up the simulation\<close>

text \<open>
  \<open>data.nodes.map(n => ({ ...n }))\<close> and \<open>data.links.map(l => ({ ...l }))\<close>: fresh
  objects with the fields of the data; the engine's fields are not set yet.
\<close>

definition copy_node :: "NodeData \<Rightarrow> SimulationNode" where
  "copy_node n =
     \<lparr> node_id = node_id n, label = label n, node_group = node_group n, val = val n,
       node_index = None, node_x = None, node_y = None, node_vx = None, node_vy = None \<rparr>"

definition copy_link :: "LinkData \<Rightarrow> SimulationLink" where
  "copy_link l = \<lparr> link_source = Id (source l), link_target = Id (target l) \<rparr>"

text \<open>
  \<open>d3.forceSimulation(initialNodes)\<close> numbers the node objects and gives a position and
  a zero velocity to every node that has none. Where the engine puts the \<open>i\<close>-th node is
  a parameter, \<open>place\<close>.
\<close>

definition initializeNode :: "(nat \<Rightarrow> number \<times> number) \<Rightarrow> nat \<times> SimulationNode \<Rightarrow> SimulationNode" where
  "initializeNode place = (\<lambda>(i, n).
     let n1 = n\<lparr> node_index := Some i \<rparr>;
         n2 = (if node_x n1 = None \<or> node_y n1 = None
               then n1\<lparr> node_x := Some (fst (place i)), node_y := Some (snd (place i)) \<rparr>
               else n1)
     in if node_vx n2 = None \<or> node_vy n2 = None
        then n2\<lparr> node_vx := Some 0, node_vy := Some 0 \<rparr>
        else n2)"

definition initializeNodes :: "(nat \<Rightarrow> number \<times> number) \<Rightarrow> SimulationNode list \<Rightarrow> SimulationNode list" where
  "initializeNodes place ns = map (initializeNode place) (enumerate 0 ns)"

text \<open>
  \<open>d3.forceLink(initialLinks).id(d => d.id)\<close>, once it is installed with
  \<open>simulation.force("link", ..)\<close>, builds a table from the id of each node to the node
  (a later node with the same id replaces an earlier one) and replaces every end of a
  link that is not an object by the node of that id. This is the behaviour of the d3-force
  library, which is not part of the repository: its lookup raises the error
  \<open>node not found: <id>\<close> for an id that is not in the table.
\<close>

datatype error = NodeNotFound string

definition nodeById :: "SimulationNode list \<Rightarrow> string \<Rightarrow> nat option" where
  "nodeById ns = map_of (rev (zip (map node_id ns) [0..<length ns]))"

definition find_node :: "(string \<Rightarrow> nat option) \<Rightarrow> string \<Rightarrow> error + nat" where
  "find_node tbl k = (case tbl k of None \<Rightarrow> Inl (NodeNotFound k) | Some i \<Rightarrow> Inr i)"

definition resolve_end :: "(string \<Rightarrow> nat option) \<Rightarrow> endpoint \<Rightarrow> error + endpoint" where
  "resolve_end tbl e =
     (case e of
        NodeRef i \<Rightarrow> Inr (NodeRef i)
      | Id k \<Rightarrow> (case find_node tbl k of Inl err \<Rightarrow> Inl err | Inr i \<Rightarrow> Inr (NodeRef i)))"

fun forceLink_initialize :: "(string \<Rightarrow> nat option) \<Rightarrow> SimulationLink list \<Rightarrow> error + SimulationLink list" where
  "forceLink_initialize tbl [] = Inr []"
| "forceLink_initialize tbl (l # ls) =
     (case resolve_end tbl (link_source l) of
        Inl err \<Rightarrow> Inl err
      | Inr s \<Rightarrow>
          (case resolve_end tbl (link_target l) of
             Inl err \<Rightarrow> Inl err
           | Inr t \<Rightarrow>
               (case forceLink_initialize tbl ls of
                  Inl err \<Rightarrow> Inl err
                | Inr ls' \<Rightarrow> Inr (l\<lparr> link_source := s, link_target := t \<rparr> # ls'))))"

text \<open>
  The component instance: the two pieces of React state, the dependencies
  \<open>[data, width, height]\<close> of the last run of the effect, the simulation that run created
  (\<open>None\<close> when the effect returned at its guard, so that there is no cleanup function),
  and the log of the simulations created and stopped so far.
\<close>

datatype event = SimulationCreated | SimulationStopped

record simulation =
  sim_forces :: forces

record MindMapGraph =
  nodes_state :: "SimulationNode list"
  links_state :: "SimulationLink list"
  effect_deps :: "nat \<times> number \<times> number"
  running :: "simulation option"
  log :: "event list"

definition deps :: "MindMapGraphProps \<Rightarrow> nat \<times> number \<times> number" where
  "deps p = (data_ref p, width p, height p)"

text \<open>
  The body of \<open>useEffect\<close>. \<open>setNodes(initialNodes)\<close> stores the very array the
  simulation works on, so the state that the next render sees holds the node objects as
  the engine has initialised them, and the links as \<open>forceLink\<close> has resolved them. An
  error raised in the effect ends the component: the result is the error.
\<close>

definition useEffect_body ::
  "(nat \<Rightarrow> number \<times> number) \<Rightarrow> MindMapGraphProps \<Rightarrow> MindMapGraph \<Rightarrow> error + MindMapGraph" where
  "useEffect_body place p c =
     (if nodes (data p) = [] then Inr c
      else
        let initialNodes = map copy_node (nodes (data p));
            initialLinks = map copy_link (links (data p));
            simNodes = initializeNodes place initialNodes
        in case forceLink_initialize (nodeById simNodes) initialLinks of
             Inl err \<Rightarrow> Inl err
           | Inr simLinks \<Rightarrow>
               Inr (c\<lparr> nodes_state := simNodes,
                       links_state := simLinks,
                       running := Some \<lparr> sim_forces = simulation_forces p \<rparr>,
                       log := log c @ [SimulationCreated] \<rparr>))"

text \<open>The cleanup function the effect returns: \<open>simulation.stop()\<close>.\<close>

definition cleanup :: "MindMapGraph \<Rightarrow> MindMapGraph" where
  "cleanup c =
     (case running c of
        None \<Rightarrow> c
      | Some s \<Rightarrow> c\<lparr> running := None, log := log c @ [SimulationStopped] \<rparr>)"

text \<open>
  Mounting runs the effect on the initial state (\<open>useState([])\<close> twice). A later render
  with new props runs the cleanup and the effect again when one of the dependencies is
  not the same as at the last run, and leaves the instance alone otherwise.
\<close>

definition mount :: "(nat \<Rightarrow> number \<times> number) \<Rightarrow> MindMapGraphProps \<Rightarrow> error + MindMapGraph" where
  "mount place p =
     useEffect_body place p
       \<lparr> nodes_state = [], links_state = [], effect_deps = deps p, running = None, log = [] \<rparr>"

definition rerender ::
  "(nat \<Rightarrow> number \<times> number) \<Rightarrow> MindMapGraphProps \<Rightarrow> MindMapGraph \<Rightarrow> error + MindMapGraph" where
  "rerender place p c =
     (if deps p = effect_deps c then Inr c
      else useEffect_body place p ((cleanup c)\<lparr> effect_deps := deps p \<rparr>))"



section \<open>The render output of MindMapGraph\<close>

text \<open>
  The SVG the component returns, as data: one entry per link (\<open>None\<close> where the source
  returns \<open>null\<close>) and one group per node. Attributes that are the same constant for every
  element (class names, the glow filter, the pulse animation) are left out; the
  \<open>translate(..)\<close> of a group is kept as the pair of numbers the template prints.
\<close>

record line_el =
  line_key :: nat
  line_x1 :: number
  line_y1 :: number
  line_x2 :: number
  line_y2 :: number
  line_stroke :: string
  line_strokeWidth :: number

record halo_el =
  halo_r :: number
  halo_fill :: string

record circle_el =
  circle_r :: number
  circle_fill :: string
  circle_stroke :: string
  circle_strokeWidth :: number

record foreignObject_el =
  fo_x :: number
  fo_y :: number
  fo_width :: number
  fo_height :: number
  fo_color :: string
  fo_text :: string

record glyph_el =
  glyph_key :: string
  translate :: "number \<times> number"
  halo :: "halo_el option"
  circle :: circle_el
  foreignObject :: "foreignObject_el option"

record svg =
  viewBox :: "number \<times> number \<times> number \<times> number"
  lines :: "line_el option list"
  glyphs :: "glyph_el list"

text \<open>\<open>v || d\<close> for an optional number: \<open>undefined\<close> and \<open>0\<close> are falsy.\<close>

definition number_or :: "number option \<Rightarrow> number \<Rightarrow> number" where
  "number_or v d = (case v of None \<Rightarrow> d | Some a \<Rightarrow> if a = 0 then d else a)"

text \<open>
  Following a reference to a node object. Every reference \<open>forceLink\<close> makes is in
  range; one that is not has no object to read and gives no line.
\<close>

definition node_at :: "SimulationNode list \<Rightarrow> nat \<Rightarrow> SimulationNode option" where
  "node_at objs i = (if i < length objs then Some (objs ! i) else None)"

definition render_link :: "bool \<Rightarrow> SimulationNode list \<Rightarrow> nat \<times> SimulationLink \<Rightarrow> line_el option" where
  "render_link dark objs = (\<lambda>(i, link).
     case (link_source link, link_target link) of
       (NodeRef a, NodeRef b) \<Rightarrow>
         (case (node_at objs a, node_at objs b) of
            (Some s, Some t) \<Rightarrow>
              (case (node_x s, node_y s, node_x t, node_y t) of
                 (Some sx, Some sy, Some tx, Some ty) \<Rightarrow>
                   Some \<lparr> line_key = i, line_x1 = sx, line_y1 = sy, line_x2 = tx, line_y2 = ty,
                          line_stroke = linkColor dark, line_strokeWidth = 2 \<rparr>
               | _ \<Rightarrow> None)
          | _ \<Rightarrow> None)
     | _ \<Rightarrow> None)"

definition render_node :: "MindMapGraphProps \<Rightarrow> SimulationNode \<Rightarrow> glyph_el" where
  "render_node p node =
     \<lparr> glyph_key = node_id node,
       translate = (number_or (node_x node) (width p / 2), number_or (node_y node) (height p / 2)),
       halo = (if node_group node = Some 1
               then Some \<lparr> halo_r = getRadius (node_group node) + 10,
                           halo_fill = getColor (isDarkMode p) (node_group node) \<rparr>
               else None),
       circle = \<lparr> circle_r = getRadius (node_group node),
                  circle_fill = (if isDarkMode p then ''rgba(30, 41, 59, 0.9)'' else ''rgba(255,255,255,0.9)''),
                  circle_stroke = getColor (isDarkMode p) (node_group node),
                  circle_strokeWidth = 3 \<rparr>,
       foreignObject = (if showLabels p
               then Some \<lparr> fo_x = - getRadius (node_group node),
                           fo_y = - getRadius (node_group node),
                           fo_width = getRadius (node_group node) * 2,
                           fo_height = getRadius (node_group node) * 2,
                           fo_color = textColor (isDarkMode p),
                           fo_text = label node \<rparr>
               else None) \<rparr>"

definition render :: "MindMapGraphProps \<Rightarrow> MindMapGraph \<Rightarrow> svg" where
  "render p c =
     \<lparr> viewBox = (0, 0, width p, height p),
       lines = map (render_link (isDarkMode p) (nodes_state c)) (enumerate 0 (links_state c)),
       glyphs = map (render_node p) (nodes_state c) \<rparr>"

text \<open>
  A render as a step of the instance: it returns the output and the instance it leaves
  behind. The function body of the component reads the state and the props and calls no
  setter.
\<close>

definition render_step :: "MindMapGraphProps \<Rightarrow> MindMapGraph \<Rightarrow> svg \<times> MindMapGraph" where
  "render_step p c = (render p c, c)"


section \<open>The title over the mind map (App.tsx)\<close>

text \<open>
  \<open>graphData.nodes.find(n => n.group === 1)?.label || "..."\<close>. The fallback is the
  Vietnamese for "main topic", written here as its UTF-8 bytes. The empty string is falsy.
\<close>

definition fallback_title :: string where
  "fallback_title =
     [CHR ''C'', CHR ''h'', CHR 0xE1, CHR 0xBB, CHR 0xA7, CHR '' '',
      CHR 0xC4, CHR 0x91, CHR 0xE1, CHR 0xBB, CHR 0x81, CHR '' '',
      CHR ''c'', CHR ''h'', CHR 0xC3, CHR 0xAD, CHR ''n'', CHR ''h'']"

definition root_title :: "GraphData \<Rightarrow> string" where
  "root_title g =
     (case List.find (\<lambda>n. node_group n = Some 1) (nodes g) of
        None \<Rightarrow> fallback_title
      | Some n \<Rightarrow> (if label n = [] then fallback_title else label n))"


section \<open>InfographicView\<close>

datatype glyph =
    ChartBarIcon | LightBulbIcon | UserGroupIcon | GlobeAltIcon
  | ClockIcon | ShieldCheckIcon | TrophyIcon | SparklesIcon

text \<open>
  \<open>IconMap\<close> is an object literal: its own properties are the eight entries below, in
  the order of the source. Reading \<open>IconMap[k]\<close> for a key that is not an own property
  goes on to the prototype of the object, \<open>Object.prototype\<close>, whose properties have the
  names listed in \<open>object_prototype_keys\<close>; any other key reads \<open>undefined\<close>. What a
  read gives is therefore one of the icon components or a member of the prototype.
\<close>

datatype element_type = Component glyph | PrototypeMember string

definition IconMap :: "(string \<times> glyph) list" where
  "IconMap =
     [(''chart'', ChartBarIcon),
      (''bulb'', LightBulbIcon),
      (''users'', UserGroupIcon),
      (''globe'', GlobeAltIcon),
      (''time'', ClockIcon),
      (''shield'', ShieldCheckIcon),
      (''target'', TrophyIcon),
      (''default'', SparklesIcon)]"

definition object_prototype_keys :: "string list" where
  "object_prototype_keys =
     [''constructor'', ''hasOwnProperty'', ''isPrototypeOf'', ''propertyIsEnumerable'',
      ''toLocaleString'', ''toString'', ''valueOf'', ''__proto__'',
      ''__defineGetter__'', ''__defineSetter__'', ''__lookupGetter__'', ''__lookupSetter__'']"

definition IconMap_get :: "string \<Rightarrow> element_type option" where
  "IconMap_get k =
     (case map_of IconMap k of
        Some g \<Rightarrow> Some (Component g)
      | None \<Rightarrow> (if k \<in> set object_prototype_keys then Some (PrototypeMember k) else None))"

text \<open>
  \<open>const Icon = IconMap[item.icon] || IconMap.default\<close>: every value a read can give
  (a function or an object) is truthy, so the fallback is taken for \<open>undefined\<close> only.
\<close>

definition Icon :: "InfographicItem \<Rightarrow> element_type" where
  "Icon item =
     (case IconMap_get (icon item) of
        Some v \<Rightarrow> v
      | None \<Rightarrow> (case IconMap_get ''default'' of Some v \<Rightarrow> v | None \<Rightarrow> Component SparklesIcon))"

record InfographicViewProps =
  view_data :: "InfographicItem list"
  view_isDarkMode :: "bool option"
  view_showDescription :: "bool option"

record card =
  card_key :: nat
  card_classes :: string
  card_backdrop :: element_type
  card_icon :: element_type
  card_iconBg :: string
  card_title :: string
  card_description :: "string option"

definition cardClasses :: "bool \<Rightarrow> string" where
  "cardClasses dark =
     (if dark then ''bg-slate-700/60 border-slate-600 hover:shadow-blue-900/20 text-white''
      else ''glass-card border-white/60 text-gray-800'')"

definition iconBg :: "bool \<Rightarrow> string" where
  "iconBg dark =
     (if dark then ''bg-indigo-900/50 text-indigo-400''
      else ''bg-gradient-to-br from-indigo-100 to-white text-indigo-600'')"

definition InfographicView :: "InfographicViewProps \<Rightarrow> card list" where
  "InfographicView p =
     (let dark = (case view_isDarkMode p of None \<Rightarrow> False | Some b \<Rightarrow> b);
          showDescription = (case view_showDescription p of None \<Rightarrow> True | Some b \<Rightarrow> b)
      in map (\<lambda>(index, item).
                \<lparr> card_key = index,
                  card_classes = cardClasses dark,
                  card_backdrop = Icon item,
                  card_icon = Icon item,
                  card_iconBg = iconBg dark,
                  card_title = title item,
                  card_description = (if showDescription then Some (description item) else None) \<rparr>)
             (enumerate 0 (view_data p)))"


section \<open>Concrete inputs\<close>

definition default_props :: "GraphData \<Rightarrow> MindMapGraphProps" where
  "default_props g =
     \<lparr> data_ref = 0, data = g, width_prop = None, height_prop = None,
       isDarkMode_prop = None, showLabels_prop = None \<rparr>"

definition root_node :: NodeData where
  "root_node = \<lparr> node_id = ''root'', label = ''Topic'', node_group = Some 1, val = None \<rparr>"

definition branch_node :: NodeData where
  "branch_node = \<lparr> node_id = ''b1'', label = ''Idea'', node_group = Some 2, val = None \<rparr>"

definition leaf_node :: NodeData where
  "leaf_node = \<lparr> node_id = ''l1'', label = ''Detail'', node_group = Some 3, val = None \<rparr>"

definition plain_node :: NodeData where
  "plain_node = \<lparr> node_id = ''n1'', label = ''Note'', node_group = None, val = None \<rparr>"

definition rootless_graph :: GraphData where
  "rootless_graph =
     \<lparr> nodes = [branch_node, leaf_node, plain_node],
       links = [\<lparr> source = ''b1'', target = ''l1'' \<rparr>] \<rparr>"

definition constructor_item :: InfographicItem where
  "constructor_item = \<lparr> title = ''Insight'', description = ''Text'', icon = ''constructor'' \<rparr>"


text \<open>The example of the specification: a link to the id \<open>missing\<close>, which no node has.\<close>

definition dangling_graph :: GraphData where
  "dangling_graph =
     \<lparr> nodes = [\<lparr> node_id = ''x'', label = ''X'', node_group = Some 1, val = None \<rparr>, branch_node],
       links = [\<lparr> source = ''x'', target = ''missing'' \<rparr>, \<lparr> source = ''x'', target = ''b1'' \<rparr>] \<rparr>"

definition empty_graph :: GraphData where
  "empty_graph = \<lparr> nodes = [], links = [\<lparr> source = ''a'', target = ''b'' \<rparr>] \<rparr>"

definition example_graph :: GraphData where
  "example_graph =
     \<lparr> nodes = [root_node, branch_node], links = [\<lparr> source = ''root'', target = ''b1'' \<rparr>] \<rparr>"

definition place0 :: "nat \<Rightarrow> number \<times> number" where
  "place0 i = (100 * real i + 10, 50)"

text \<open>The instance that mounting \<open>example_graph\<close> gives when the engine places by \<open>place0\<close>.\<close>

definition mounted_example :: MindMapGraph where
  "mounted_example =
     \<lparr> nodes_state =
         [\<lparr> node_id = ''root'', label = ''Topic'', node_group = Some 1, val = None,
            node_index = Some 0, node_x = Some 10, node_y = Some 50,
            node_vx = Some 0, node_vy = Some 0 \<rparr>,
          \<lparr> node_id = ''b1'', label = ''Idea'', node_group = Some 2, val = None,
            node_index = Some 1, node_x = Some 110, node_y = Some 50,
            node_vx = Some 0, node_vy = Some 0 \<rparr>],
       links_state = [\<lparr> link_source = NodeRef 0, link_target = NodeRef 1 \<rparr>],
       effect_deps = (0, 800, 500),
       running = Some \<lparr> sim_forces = simulation_forces (default_props example_graph) \<rparr>,
       log = [SimulationCreated] \<rparr>"




text \<open>New props for a mounted instance: another data object, whose node list is empty.\<close>

definition emptied_props :: MindMapGraphProps where
  "emptied_props = (default_props empty_graph)\<lparr> data_ref := 1 \<rparr>"



section \<open>Colours and radii\<close>

lemma getRadius_values: "getRadius g = 50 \<or> getRadius g = 35 \<or> getRadius g = 25"
  by (simp add: getRadius_def Let_def)

lemma getRadius_by_group:
  "getRadius (Some 1) = 50" "getRadius (Some 2) = 35" "getRadius (Some 3) = 25"
  "getRadius None = 35"
  by (simp_all add: getRadius_def)

text \<open>
  C2, as stated: the collision radius of a node is \<open>getRadius\<close> of its group. It is not:
  for the root node of a graph the force is configured with 60, and the glyph has radius
  50.
\<close>

theorem collide_radius_is_not_getRadius:
  "collide_radius (simulation_forces (default_props rootless_graph)) (copy_node root_node)
     \<noteq> getRadius (node_group (copy_node root_node))"
  by (simp add: simulation_forces_def getRadius_def copy_node_def root_node_def)

text \<open>
  C2, amended: the collision force is configured with one radius, 60, for every node
  whatever its group. That radius is larger than every radius \<open>getRadius\<close> returns, so
  the centre distance the force asks of two nodes (the sum of their collision radii, 120)
  is larger than the sum of the radii of their glyphs.
\<close>

theorem collide_radius_fixed:
  "collide_radius (simulation_forces p) n = 60
   \<and> getRadius (node_group n) < collide_radius (simulation_forces p) n
   \<and> collide_radius (simulation_forces p) a + collide_radius (simulation_forces p) b = 120
   \<and> getRadius (node_group a) + getRadius (node_group b)
       < collide_radius (simulation_forces p) a + collide_radius (simulation_forces p) b"
  by (simp add: simulation_forces_def getRadius_def Let_def)

text \<open>
  C3, as stated: root, branch, leaf and default (no group, or a group that is not
  recognised) have four different colours. They have not: a node without a group has
  the colour of a branch, and a node with an unrecognised group has the colour of a leaf,
  in both themes.
\<close>

theorem getColor_default_not_distinct:
  "getColor False None = getColor False (Some 2)
   \<and> getColor True None = getColor True (Some 2)
   \<and> getColor False (Some 7) = getColor False (Some 3)
   \<and> getColor True (Some 7) = getColor True (Some 3)"
  by (simp add: getColor_def)

text \<open>
  C3, amended: in each theme \<open>getColor\<close> has three colours, different from one another:
  one for group 1 (root), one for group 2 (branch) and one for every other group (leaf).
  A node without a group gets the colour of a branch (the default of the parameter is 2);
  there is no colour of its own for the default case.
\<close>

theorem getColor_three_colours:
  "getColor dark (Some 1) \<noteq> getColor dark (Some 2)
   \<and> getColor dark (Some 1) \<noteq> getColor dark (Some 3)
   \<and> getColor dark (Some 2) \<noteq> getColor dark (Some 3)
   \<and> getColor dark None = getColor dark (Some 2)
   \<and> (g \<noteq> 1 \<and> g \<noteq> 2 \<longrightarrow> getColor dark (Some g) = getColor dark (Some 3))
   \<and> getColor True (Some g) \<noteq> getColor False (Some g')"
  by (simp add: getColor_def)

theorem getColor_three_colours_witness:
  "(7::real) \<noteq> 1 \<and> (7::real) \<noteq> 2
   \<and> getColor True (Some 7) = getColor True (Some 3)
   \<and> getColor True (Some 1) \<noteq> getColor True (Some 2)
   \<and> getColor True (Some 1) \<noteq> getColor True (Some 3)
   \<and> getColor True (Some 2) \<noteq> getColor True (Some 3)
   \<and> getColor True None = ''#f472b6''"
  using getColor_three_colours [of True 7] by (simp add: getColor_def)


section \<open>The title\<close>

lemma fallback_title_nonempty: "fallback_title \<noteq> []"
  by (simp add: fallback_title_def)

lemma root_title_nonempty: "root_title g \<noteq> []"
  by (simp add: root_title_def fallback_title_def split: option.split)

text \<open>
  C4: for a graph in which no node has group 1 the title is the fallback string, and the
  fallback string is not empty.
\<close>

theorem root_title_fallback:
  assumes "\<forall>n \<in> set (nodes g). node_group n \<noteq> Some 1"
  shows "root_title g = fallback_title \<and> root_title g \<noteq> []"
proof -
  from assms have "List.find (\<lambda>n. node_group n = Some 1) (nodes g) = None"
    by (simp add: find_None_iff)
  then show ?thesis
    by (simp add: root_title_def fallback_title_def)
qed

theorem root_title_fallback_witness:
  "map node_group (nodes rootless_graph) = [Some 2, Some 3, None]
   \<and> root_title rootless_graph = fallback_title
   \<and> length (root_title rootless_graph) = 18"
proof -
  have g: "map node_group (nodes rootless_graph) = [Some 2, Some 3, None]"
    by (simp add: rootless_graph_def branch_node_def leaf_node_def plain_node_def)
  have h: "\<forall>n \<in> set (nodes rootless_graph). node_group n \<noteq> Some 1"
    by (simp add: rootless_graph_def branch_node_def leaf_node_def plain_node_def)
  from root_title_fallback [OF h] g show ?thesis
    by (simp add: fallback_title_def)
qed


section \<open>The icon of a card\<close>

lemma Icon_own_key:
  "map_of IconMap (icon item) = Some g \<Longrightarrow> Icon item = Component g"
  by (simp add: Icon_def IconMap_get_def)

lemma Icon_own_keys:
  "Icon (item\<lparr> icon := ''chart'' \<rparr>) = Component ChartBarIcon"
  "Icon (item\<lparr> icon := ''bulb'' \<rparr>) = Component LightBulbIcon"
  "Icon (item\<lparr> icon := ''users'' \<rparr>) = Component UserGroupIcon"
  "Icon (item\<lparr> icon := ''globe'' \<rparr>) = Component GlobeAltIcon"
  "Icon (item\<lparr> icon := ''time'' \<rparr>) = Component ClockIcon"
  "Icon (item\<lparr> icon := ''shield'' \<rparr>) = Component ShieldCheckIcon"
  "Icon (item\<lparr> icon := ''target'' \<rparr>) = Component TrophyIcon"
  "Icon (item\<lparr> icon := ''default'' \<rparr>) = Component SparklesIcon"
  by (simp_all add: Icon_def IconMap_get_def IconMap_def)

lemma Icon_fallback:
  assumes "map_of IconMap (icon item) = None" and "icon item \<notin> set object_prototype_keys"
  shows "Icon item = Component SparklesIcon"
  using assms by (simp add: Icon_def IconMap_get_def) (simp add: IconMap_def)

text \<open>
  C5 at the item whose icon key is \<open>constructor\<close>, a key that is not one of the eight of
  \<open>IconMap\<close>: the read \<open>IconMap["constructor"]\<close> finds the property every object inherits,
  which is truthy, so the fallback is not taken and the card is given that value, not
  \<open>SparklesIcon\<close>, as its icon.
\<close>

theorem Icon_constructor:
  "map_of IconMap (icon constructor_item) = None
   \<and> Icon constructor_item = PrototypeMember ''constructor''
   \<and> map card_icon (InfographicView \<lparr> view_data = [constructor_item],
         view_isDarkMode = None, view_showDescription = None \<rparr>)
       = [PrototypeMember ''constructor'']"
  by (simp add: InfographicView_def Icon_def IconMap_get_def IconMap_def
      object_prototype_keys_def constructor_item_def)


section \<open>Resolving the links\<close>

lemma nodeById_None: "nodeById ns k = None \<longleftrightarrow> k \<notin> node_id ` set ns"
proof -
  have "map fst (zip (map node_id ns) [0..<length ns]) = map node_id ns"
    by (simp add: map_fst_zip)
  then have "fst ` set (zip (map node_id ns) [0..<length ns]) = node_id ` set ns"
    by (metis list.set_map)
  then show ?thesis
    by (simp add: nodeById_def map_of_eq_None_iff)
qed

lemma initializeNode_id: "node_id (initializeNode place (i, n)) = node_id n"
  by (simp add: initializeNode_def Let_def)

lemma initializeNodes_ids: "node_id ` set (initializeNodes place ns) = node_id ` set ns"
proof -
  have "map node_id (initializeNodes place ns) = map (node_id \<circ> snd) (enumerate 0 ns)"
    by (auto simp: initializeNodes_def initializeNode_id)
  also have "\<dots> = map node_id ns"
    by (simp add: map_map [symmetric] del: map_map)
  finally show ?thesis
    by (metis list.set_map)
qed

lemma copy_node_id: "node_id (copy_node n) = node_id n"
  by (simp add: copy_node_def)

lemma forceLink_initialize_fails:
  "l \<in> set ls \<Longrightarrow> link_source l = Id k \<or> link_target l = Id k \<Longrightarrow> tbl k = None
     \<Longrightarrow> \<exists>e. forceLink_initialize tbl ls = Inl e"
  by (induction ls)
    (auto simp: resolve_end_def find_node_def split: sum.splits endpoint.splits option.splits)

lemma forceLink_initialize_ok:
  "\<forall>l \<in> set ls. \<exists>a b. link_source l = Id a \<and> link_target l = Id b \<and> tbl a \<noteq> None \<and> tbl b \<noteq> None
     \<Longrightarrow> \<exists>ls'. forceLink_initialize tbl ls = Inr ls'"
  by (induction ls)
    (auto simp: resolve_end_def find_node_def split: sum.splits endpoint.splits option.splits)

text \<open>
  The effect fails on every graph with nodes in which an end of some link is the id of
  no node, and succeeds on every graph whose links all name nodes.
\<close>

lemma mount_dangling:
  assumes "nodes (data p) \<noteq> []" and "l \<in> set (links (data p))"
    and "source l \<notin> node_id ` set (nodes (data p)) \<or> target l \<notin> node_id ` set (nodes (data p))"
  shows "\<exists>e. mount place p = Inl e"
proof -
  let ?objs = "initializeNodes place (map copy_node (nodes (data p)))"
  have ids: "node_id ` set ?objs = node_id ` set (nodes (data p))"
    by (simp add: initializeNodes_ids image_image copy_node_id)
  from assms(3) obtain k
    where k: "k = source l \<or> k = target l" "k \<notin> node_id ` set (nodes (data p))"
    by blast
  then have none: "nodeById ?objs k = None"
    by (simp add: nodeById_None ids)
  have "copy_link l \<in> set (map copy_link (links (data p)))"
    using assms(2) by simp
  moreover have "link_source (copy_link l) = Id k \<or> link_target (copy_link l) = Id k"
    using k(1) by (auto simp: copy_link_def)
  ultimately obtain e
    where "forceLink_initialize (nodeById ?objs) (map copy_link (links (data p))) = Inl e"
    using forceLink_initialize_fails none by blast
  then show ?thesis
    using assms(1) by (simp add: mount_def useEffect_body_def Let_def)
qed

lemma mount_resolved:
  assumes "\<forall>l \<in> set (links (data p)).
             source l \<in> node_id ` set (nodes (data p)) \<and> target l \<in> node_id ` set (nodes (data p))"
  shows "\<exists>c. mount place p = Inr c"
proof (cases "nodes (data p) = []")
  case True
  then show ?thesis by (simp add: mount_def useEffect_body_def)
next
  case False
  let ?objs = "initializeNodes place (map copy_node (nodes (data p)))"
  have ids: "node_id ` set ?objs = node_id ` set (nodes (data p))"
    by (simp add: initializeNodes_ids image_image copy_node_id)
  have "\<forall>l \<in> set (map copy_link (links (data p))).
          \<exists>a b. link_source l = Id a \<and> link_target l = Id b
            \<and> nodeById ?objs a \<noteq> None \<and> nodeById ?objs b \<noteq> None"
    using assms by (auto simp: copy_link_def nodeById_None ids)
  then obtain ls'
    where "forceLink_initialize (nodeById ?objs) (map copy_link (links (data p))) = Inr ls'"
    using forceLink_initialize_ok by blast
  then show ?thesis
    using False by (simp add: mount_def useEffect_body_def Let_def)
qed

text \<open>
  The renderer has a guard for an end that is still an id: such a link gives no line.
\<close>

lemma render_link_unresolved:
  "link_source l = Id k \<or> link_target l = Id k \<Longrightarrow> render_link dark objs (i, l) = None"
  by (auto simp: render_link_def split: endpoint.splits)

text \<open>
  C1 at the graph of the specification's example, a link from \<open>x\<close> to the id \<open>missing\<close>:
  mounting the component does not give an instance that renders the nodes without that
  link; installing the link force raises the error for the id, whatever positions the
  engine would choose.
\<close>

theorem mount_dangling_link:
  "mount place (default_props dangling_graph) = Inl (NodeNotFound ''missing'')"
  by (simp add: mount_def useEffect_body_def default_props_def dangling_graph_def
      branch_node_def copy_node_def copy_link_def initializeNodes_def initializeNode_def
      nodeById_def resolve_end_def find_node_def enumerate_eq_zip Let_def)


section \<open>The life of the effect\<close>



lemma rerender_emptied:
  "rerender place0 emptied_props mounted_example =
     Inr (mounted_example\<lparr> effect_deps := (1, 800, 500), running := None,
            log := [SimulationCreated, SimulationStopped] \<rparr>)"
  by (simp add: rerender_def cleanup_def useEffect_body_def emptied_props_def default_props_def
      empty_graph_def mounted_example_def deps_def width_def height_def)







section \<open>The empty graph\<close>

text \<open>
  C7, as stated: for every graph with an empty node list the component renders nothing.
  Not on an instance that shows a graph already: the effect returns at its guard before
  the state is set, so \<open>mounted_example\<close>, rendered again with an empty graph, still
  draws its two glyphs and its line.
\<close>

theorem empty_graph_keeps_old_glyphs:
  "nodes (data emptied_props) = []
   \<and> rerender place0 emptied_props mounted_example =
       Inr (mounted_example\<lparr> effect_deps := (1, 800, 500), running := None,
              log := [SimulationCreated, SimulationStopped] \<rparr>)
   \<and> map glyph_key (glyphs (render emptied_props
         (mounted_example\<lparr> effect_deps := (1, 800, 500), running := None,
              log := [SimulationCreated, SimulationStopped] \<rparr>))) = [''root'', ''b1'']
   \<and> map (map_option (\<lambda>l. (line_x1 l, line_y1 l, line_x2 l, line_y2 l))) (lines (render emptied_props
         (mounted_example\<lparr> effect_deps := (1, 800, 500), running := None,
              log := [SimulationCreated, SimulationStopped] \<rparr>))) = [Some (10, 50, 110, 50)]"
  using rerender_emptied
  by (simp add: emptied_props_def default_props_def empty_graph_def render_def render_node_def
      render_link_def node_at_def mounted_example_def)

text \<open>
  C7, amended: a component mounted with a graph whose node list is empty renders neither
  a glyph nor a line, creates no simulation and raises no error; and for every graph
  with an empty node list the body of the effect returns at its guard, so the setup of
  the simulation is skipped entirely, whatever instance it runs on.
\<close>

theorem empty_graph_renders_nothing:
  assumes "nodes (data p) = []"
  shows "(\<exists>c. mount place p = Inr c \<and> running c = None \<and> log c = []
            \<and> glyphs (render p c) = [] \<and> lines (render p c) = [])
         \<and> useEffect_body place p c' = Inr c'"
  using assms by (simp add: mount_def useEffect_body_def render_def)

theorem empty_graph_renders_nothing_witness:
  "nodes (data (default_props empty_graph)) = []
   \<and> links (data (default_props empty_graph)) \<noteq> []
   \<and> (\<exists>c. mount place0 (default_props empty_graph) = Inr c \<and> running c = None
          \<and> glyphs (render (default_props empty_graph) c) = []
          \<and> lines (render (default_props empty_graph) c) = [])
   \<and> useEffect_body place0 (default_props empty_graph) mounted_example = Inr mounted_example"
proof -
  have h: "nodes (data (default_props empty_graph)) = []"
    by (simp add: default_props_def empty_graph_def)
  have l: "links (data (default_props empty_graph)) \<noteq> []"
    by (simp add: default_props_def empty_graph_def)
  from empty_graph_renders_nothing [OF h, of place0 mounted_example] h l show ?thesis
    by blast
qed


section \<open>Rendering a snapshot\<close>

lemma node_at_map: "node_at (map f objs) a = map_option f (node_at objs a)"
  by (simp add: node_at_def)

lemma render_link_velocity:
  "render_link dark (map (\<lambda>n. n\<lparr> node_index := ix n, node_vx := vx n, node_vy := vy n \<rparr>) objs) il
     = render_link dark objs il"
  by (cases il) (simp add: render_link_def node_at_map split: endpoint.split option.split)

lemma render_node_velocity:
  "render_node p (n\<lparr> node_index := ix, node_vx := vx, node_vy := vy \<rparr>) = render_node p n"
  by (simp add: render_node_def)

text \<open>
  C8: a render leaves the instance as it found it, so a second render of the same
  snapshot with the same props gives the same output as the first. The output is
  determined by the positions, ids, groups and labels of the nodes, the links and the
  props: it does not depend on the fields the engine keeps besides the positions (index
  and velocity), nor on the rest of the instance.
\<close>

theorem render_idempotent:
  "snd (render_step p c) = c
   \<and> fst (render_step p (snd (render_step p c))) = fst (render_step p c)
   \<and> render p (c\<lparr> nodes_state :=
                     map (\<lambda>n. n\<lparr> node_index := ix n, node_vx := vx n, node_vy := vy n \<rparr>) (nodes_state c),
                   effect_deps := d, running := r, log := l \<rparr>)
       = render p c"
  by (simp add: render_step_def render_def render_link_velocity render_node_velocity o_def)

text \<open>
  The effect leaves no node without a position: every state it produces has both
  coordinates of every node set. A node without a coordinate is an input the type of the
  state allows, not one the effect makes.
\<close>

lemma initializeNode_placed:
  "(\<exists>v. node_x (initializeNode place (i, n)) = Some v)
   \<and> (\<exists>v. node_y (initializeNode place (i, n)) = Some v)"
  by (cases "node_x n"; cases "node_y n") (simp_all add: initializeNode_def Let_def)

lemma useEffect_body_placed:
  assumes "useEffect_body place p c = Inr c'" and "nodes (data p) \<noteq> []"
  shows "\<forall>n \<in> set (nodes_state c'). node_x n \<noteq> None \<and> node_y n \<noteq> None"
proof -
  from assms have "nodes_state c' = initializeNodes place (map copy_node (nodes (data p)))"
    by (auto simp: useEffect_body_def Let_def split: sum.splits)
  then show ?thesis
    by (auto simp: initializeNodes_def initializeNode_placed)
qed

lemma mount_placed:
  assumes "mount place p = Inr c"
  shows "\<forall>n \<in> set (nodes_state c). node_x n \<noteq> None \<and> node_y n \<noteq> None"
proof (cases "nodes (data p) = []")
  case True
  with assms show ?thesis by (auto simp: mount_def useEffect_body_def)
next
  case False
  with assms show ?thesis
    unfolding mount_def by (rule useEffect_body_placed)
qed




end
